theory Spec2Isabelle
  imports Complex_Main
begin

section \<open>Python values used by network_monitor.py\<close>

text \<open>
  Text is a list of 8-bit characters, read as the code points 0 to 255 of a Python
  \<open>str\<close>. On that range \<open>\d\<close> is the ten ASCII digits, \<open>\s\<close> and \<open>str.strip\<close>
  / \<open>str.split\<close> agree on the same twelve white-space characters, and
  \<open>re.IGNORECASE\<close> on an ASCII pattern is ASCII case folding.

  Exceptions are values. A constructor stands for the Python class and its subclasses
  (\<open>ValueError\<close> covers \<open>UnicodeDecodeError\<close>, \<open>RequestException\<close> covers
  \<open>HTTPError\<close>, \<open>ConnectionError\<close> and \<open>Timeout\<close>). \<open>PermissionError\<close> is what
  \<open>subprocess\<close> raises for a program that may not be executed; \<open>OtherError\<close> is any
  other exception the source names nowhere.
\<close>

datatype exn =
    TimeoutExpired
  | FileNotFoundError
  | IndexError
  | ValueError
  | CalledProcessError
  | TypeError
  | RequestException
  | PermissionError
  | OtherError

text \<open>
  A Python number is an \<open>int\<close> or a \<open>float\<close>; \<open>==\<close> and \<open>!=\<close> compare the
  numeric values. A float is modelled by the real number it denotes: rounding is not
  modelled, and the program only ever compares its floats with \<open>-1\<close>.
\<close>

datatype number = PyInt int | PyFloat real

fun val :: "number \<Rightarrow> real" where
  "val (PyInt i) = of_int i"
| "val (PyFloat r) = r"

definition bind_exn :: "exn + 'a \<Rightarrow> ('a \<Rightarrow> exn + 'b) \<Rightarrow> exn + 'b" where
  "bind_exn x f = (case x of Inl e \<Rightarrow> Inl e | Inr v \<Rightarrow> f v)"

subsection \<open>Character classes\<close>

definition digits :: "char list" where
  "digits = ''0123456789''"

definition whitespace :: "char list" where
  "whitespace = [CHR 0x09, CHR 0x0A, CHR 0x0B, CHR 0x0C, CHR 0x0D,
                 CHR 0x1C, CHR 0x1D, CHR 0x1E, CHR 0x1F, CHR 0x20, CHR 0x85, CHR 0xA0]"

definition line_boundaries :: "char list" where
  "line_boundaries = [CHR 0x0A, CHR 0x0D, CHR 0x0B, CHR 0x0C,
                      CHR 0x1C, CHR 0x1D, CHR 0x1E, CHR 0x85]"

definition isdigit :: "char \<Rightarrow> bool" where
  "isdigit c = (c \<in> set digits)"

definition isspace :: "char \<Rightarrow> bool" where
  "isspace c = (c \<in> set whitespace)"

definition lower :: "char \<Rightarrow> char" where
  "lower c = (let n = of_char c :: nat in if 65 \<le> n \<and> n \<le> 90 then char_of (n + 32) else c)"

subsection \<open>int(), float(), str.strip(), str.split(), str.splitlines(), str.startswith(), str()\<close>

definition digit_val :: "char \<Rightarrow> nat" where
  "digit_val c = of_char c - 48"

definition nat_of_digits :: "string \<Rightarrow> nat" where
  "nat_of_digits s = foldl (\<lambda>a c. 10 * a + digit_val c) 0 s"

text \<open>
  \<open>int(s)\<close> and \<open>float(s)\<close> on the strings that reach them in this program: tokens
  made of digits, and of digits and dots. A string that is no decimal numeral raises
  \<open>ValueError\<close>. Integers are unbounded, but \<open>int\<close> converts at most
  \<open>sys.get_int_max_str_digits()\<close> digits, leading zeros included, and raises
  \<open>ValueError\<close> for a longer numeral; the program leaves the limit at its default of
  4300. \<open>float\<close> has no such limit.
\<close>

definition int_max_str_digits :: nat where
  "int_max_str_digits = 4300"

definition py_int :: "string \<Rightarrow> exn + int" where
  "py_int s = (if s \<noteq> [] \<and> list_all isdigit s \<and> length s \<le> int_max_str_digits
               then Inr (int (nat_of_digits s))
               else Inl ValueError)"

definition py_float :: "string \<Rightarrow> exn + real" where
  "py_float s =
     (let ds = filter (\<lambda>c. c \<noteq> CHR ''.'') s;
          frac = drop 1 (dropWhile (\<lambda>c. c \<noteq> CHR ''.'') s)
      in if ds \<noteq> [] \<and> list_all isdigit ds \<and> length s \<le> length ds + 1
         then Inr (real (nat_of_digits ds) / 10 ^ length frac)
         else Inl ValueError)"

definition strip :: "string \<Rightarrow> string" where
  "strip s = rev (dropWhile isspace (rev (dropWhile isspace s)))"

fun split_acc :: "string \<Rightarrow> string \<Rightarrow> string list" where
  "split_acc cur [] = (if cur = [] then [] else [rev cur])"
| "split_acc cur (c # s) =
     (if isspace c then (if cur = [] then split_acc [] s else rev cur # split_acc [] s)
      else split_acc (c # cur) s)"

definition split :: "string \<Rightarrow> string list" where
  "split s = split_acc [] s"

fun splitlines_acc :: "string \<Rightarrow> string \<Rightarrow> string list" where
  "splitlines_acc cur [] = (if cur = [] then [] else [rev cur])"
| "splitlines_acc cur (c # s) =
     (if c = CHR 0x0D \<and> s \<noteq> [] \<and> hd s = CHR 0x0A then rev cur # splitlines_acc [] (tl s)
      else if c \<in> set line_boundaries then rev cur # splitlines_acc [] s
      else splitlines_acc (c # cur) s)"

definition splitlines :: "string \<Rightarrow> string list" where
  "splitlines s = splitlines_acc [] s"

definition startswith :: "string \<Rightarrow> string list \<Rightarrow> bool" where
  "startswith s prefixes = list_ex (\<lambda>p. take (length p) s = p) prefixes"

fun str_nat :: "nat \<Rightarrow> string" where
  "str_nat n = (if n < 10 then [char_of (48 + n)]
                else str_nat (n div 10) @ [char_of (48 + n mod 10)])"

declare str_nat.simps [simp del]

definition str_int :: "int \<Rightarrow> string" where
  "str_int i = (if i < 0 then CHR ''-'' # str_nat (nat (- i)) else str_nat (nat i))"

section \<open>Regular expressions: the fragment of Python's re that the program uses\<close>

text \<open>
  A backtracking matcher that returns every way a pattern can match at a position, in the
  order Python's engine tries them; the first is the match \<open>re.search\<close> reports.
  Quantifiers apply to single-character classes only, as in every pattern of the source.
  A matching state is the position in the searched text, the text still to read, and the
  groups captured so far (the latest capture of a group first).
\<close>

datatype cset = In "char list" | NotIn "char list"

fun cmem :: "cset \<Rightarrow> char \<Rightarrow> bool" where
  "cmem (In cs) c = (c \<in> set cs)"
| "cmem (NotIn cs) c = (c \<notin> set cs)"

datatype rx =
    Eps
  | Lit string
  | ILit string
  | Star cset
  | Plus cset
  | LazyStar cset
  | Seq rx rx
  | Alt rx rx
  | Grp nat rx
  | Bol

type_synonym match = "(nat \<times> string) list"
type_synonym mstate = "nat \<times> string \<times> match"

fun rx_match :: "rx \<Rightarrow> mstate \<Rightarrow> mstate list" where
  "rx_match Eps st = [st]"
| "rx_match (Lit l) (p, s, g) =
     (if take (length l) s = l then [(p + length l, drop (length l) s, g)] else [])"
| "rx_match (ILit l) (p, s, g) =
     (if map lower (take (length l) s) = map lower l
      then [(p + length l, drop (length l) s, g)] else [])"
| "rx_match (Star cs) (p, s, g) =
     map (\<lambda>k. (p + k, drop k s, g)) (rev [0 ..< Suc (length (takeWhile (cmem cs) s))])"
| "rx_match (Plus cs) (p, s, g) =
     map (\<lambda>k. (p + k, drop k s, g)) (rev [1 ..< Suc (length (takeWhile (cmem cs) s))])"
| "rx_match (LazyStar cs) (p, s, g) =
     map (\<lambda>k. (p + k, drop k s, g)) [0 ..< Suc (length (takeWhile (cmem cs) s))]"
| "rx_match (Seq a b) st = concat (map (rx_match b) (rx_match a st))"
| "rx_match (Alt a b) st = rx_match a st @ rx_match b st"
| "rx_match (Grp n r) (p, s, g) =
     map (\<lambda>(p', s', g'). (p', s', (n, take (p' - p) s) # g')) (rx_match r (p, s, g))"
| "rx_match Bol (p, s, g) = (if p = 0 then [(p, s, g)] else [])"

definition cat :: "rx list \<Rightarrow> rx" where
  "cat rs = foldr Seq rs Eps"

fun search_from :: "rx \<Rightarrow> nat \<Rightarrow> string \<Rightarrow> match option" where
  "search_from r i [] =
     (case rx_match r (i, [], []) of [] \<Rightarrow> None | st # _ \<Rightarrow> Some (snd (snd st)))"
| "search_from r i (c # s) =
     (case rx_match r (i, c # s, []) of
        [] \<Rightarrow> search_from r (Suc i) s
      | st # _ \<Rightarrow> Some (snd (snd st)))"

definition re_search :: "rx \<Rightarrow> string \<Rightarrow> match option" where
  "re_search r s = search_from r 0 s"

text \<open>\<open>m.group(n)\<close>; every group of every pattern below takes part in each of its matches.\<close>

definition match_group :: "match \<Rightarrow> nat \<Rightarrow> string" where
  "match_group m n = (case map_of m n of Some s \<Rightarrow> s | None \<Rightarrow> [])"

section \<open>The environment of one monitoring cycle\<close>

text \<open>
  What the operating system and the libraries answer: the platform name, the captured
  standard output of a child process or the exception \<open>subprocess\<close> raises instead
  (\<open>subprocess.run\<close> accepts any exit status, \<open>subprocess.check_output\<close> raises
  \<open>CalledProcessError\<close> on a non-zero one), the interface counters of \<open>psutil\<close>, the
  status code of the HTTP response or the exception \<open>requests.get\<close> raises, the two
  clock readings around the request, the formatted current time, and Python's rendering of
  floats (\<open>str\<close> and the \<open>.2f\<close> format), which is taken as given.

  Appending to a file and printing are taken to succeed. The model leaves out what no
  result depends on: the echo of each command (\<open>VERBOSE\<close>), the messages printed by
  \<open>get_network_interface_stats\<close> and \<open>check_application_response_time\<close>, the raw
  output that \<open>run_traceroute\<close> appends to \<open>traceroute_log.txt\<close>, the start of
  \<open>main\<close> (metrics server, sound test, header of the log) and the sleep between cycles.
\<close>

record net_io =
  bytes_recv :: nat
  bytes_sent :: nat
  dropin :: nat
  dropout :: nat

record world =
  platform_system :: string
  subprocess_run :: "string list \<Rightarrow> exn + string"
  subprocess_check_output :: "string list \<Rightarrow> exn + string"
  psutil_net_io_counters :: "exn + net_io option"
  requests_get :: "string \<Rightarrow> exn + nat"
  start_time :: real
  end_time :: real
  datetime_now :: string
  str_float :: "real \<Rightarrow> string"
  format_2f :: "real \<Rightarrow> string"

section \<open>check_connection\<close>

record ping_result =
  success :: bool
  packet_loss :: int
  avg_latency :: number

text \<open>
  The four patterns, in the order of the source:
  \<^verbatim>\<open>\((\d+)% loss\)\<close>, \<^verbatim>\<open>Average = (\d+)ms\<close>, \<^verbatim>\<open>(\d+)% packet loss\<close> and
  \<^verbatim>\<open>min/avg/max/mdev = [\d.]+/([\d.]+)/[\d.]+/[\d.]+ ms\<close>.
\<close>

definition win_packet_loss_rx :: rx where
  "win_packet_loss_rx = cat [Lit ''('', Grp 1 (Plus (In digits)), Lit ''% loss)'']"

definition win_avg_latency_rx :: rx where
  "win_avg_latency_rx = cat [Lit ''Average = '', Grp 1 (Plus (In digits)), Lit ''ms'']"

definition unix_packet_loss_rx :: rx where
  "unix_packet_loss_rx = cat [Grp 1 (Plus (In digits)), Lit ''% packet loss'']"

definition unix_avg_latency_rx :: rx where
  "unix_avg_latency_rx =
     cat [Lit ''min/avg/max/mdev = '', Plus (In (digits @ ''.'')), Lit ''/'',
          Grp 1 (Plus (In (digits @ ''.''))), Lit ''/'', Plus (In (digits @ ''.'')), Lit ''/'',
          Plus (In (digits @ ''.'')), Lit '' ms'']"

definition ping_command :: "world \<Rightarrow> string \<Rightarrow> string list" where
  "ping_command w host =
     (if platform_system w = ''Windows'' then [''ping'', ''-n'', ''4'', host]
      else [''ping'', ''-c'', ''4'', host])"

text \<open>The body of the \<open>try\<close> block: an exception raised in it is \<open>Inl\<close>.\<close>

definition check_connection_try :: "world \<Rightarrow> string \<Rightarrow> exn + ping_result" where
  "check_connection_try w host =
     bind_exn (subprocess_run w (ping_command w host)) (\<lambda>output.
       if platform_system w = ''Windows'' then
         bind_exn (case re_search win_packet_loss_rx output of
                     Some m \<Rightarrow> py_int (match_group m 1) | None \<Rightarrow> Inr 100) (\<lambda>loss.
         bind_exn (case re_search win_avg_latency_rx output of
                     Some m \<Rightarrow> bind_exn (py_int (match_group m 1)) (\<lambda>i. Inr (PyInt i))
                   | None \<Rightarrow> Inr (PyInt (- 1))) (\<lambda>lat.
           Inr \<lparr>success = loss < 100, packet_loss = loss, avg_latency = lat\<rparr>))
       else
         bind_exn (case re_search unix_packet_loss_rx output of
                     Some m \<Rightarrow> py_int (match_group m 1) | None \<Rightarrow> Inr 100) (\<lambda>loss.
         bind_exn (case re_search unix_avg_latency_rx output of
                     Some m \<Rightarrow> bind_exn (py_float (match_group m 1)) (\<lambda>r. Inr (PyFloat r))
                   | None \<Rightarrow> Inr (PyInt (- 1))) (\<lambda>lat.
           Inr \<lparr>success = loss < 100, packet_loss = loss, avg_latency = lat\<rparr>)))"

definition check_connection_except :: "exn \<Rightarrow> bool" where
  "check_connection_except e =
     (e = TimeoutExpired \<or> e = FileNotFoundError \<or> e = IndexError \<or> e = ValueError)"

definition check_connection :: "world \<Rightarrow> string \<Rightarrow> exn + ping_result" where
  "check_connection w host =
     (case check_connection_try w host of
        Inr r \<Rightarrow> Inr r
      | Inl e \<Rightarrow>
          if check_connection_except e
          then Inr \<lparr>success = False, packet_loss = 100, avg_latency = PyInt (- 1)\<rparr>
          else Inl e)"

section \<open>get_whois_info\<close>

record whois_info =
  org_name :: string
  country :: string

definition default_whois_info :: whois_info where
  "default_whois_info = \<lparr>org_name = ''N/A'', country = ''N/A''\<rparr>"

definition private_prefixes :: "string list" where
  "private_prefixes =
     [''192.168.'', ''10.'', ''172.16.'', ''172.17.'', ''172.18.'', ''172.19.'', ''172.20.'',
      ''172.21.'', ''172.22.'', ''172.23.'', ''172.24.'', ''172.25.'', ''172.26.'', ''172.27.'',
      ''172.28.'', ''172.29.'', ''172.30.'', ''172.31.'']"

text \<open>
  \<^verbatim>\<open>(OrgName|organization|descr):\s+(.+)\<close> and \<^verbatim>\<open>(Country|country):\s+(.+)\<close>, both
  with \<open>re.IGNORECASE\<close>; the dot matches every character but the newline.
\<close>

definition org_name_rx :: rx where
  "org_name_rx =
     cat [Grp 1 (Alt (ILit ''OrgName'') (Alt (ILit ''organization'') (ILit ''descr''))),
          Lit '':'', Plus (In whitespace), Grp 2 (Plus (NotIn [CHR 0x0A]))]"

definition country_rx :: rx where
  "country_rx =
     cat [Grp 1 (Alt (ILit ''Country'') (ILit ''country'')),
          Lit '':'', Plus (In whitespace), Grp 2 (Plus (NotIn [CHR 0x0A]))]"

definition get_whois_info_except :: "exn \<Rightarrow> bool" where
  "get_whois_info_except e =
     (e = TimeoutExpired \<or> e = FileNotFoundError \<or> e = IndexError \<or> e = ValueError
      \<or> e = CalledProcessError)"

text \<open>
  The result is paired with the external commands the call has started, in order, so that
  "no lookup" is a statement about the function.
\<close>

definition get_whois_info :: "world \<Rightarrow> string \<Rightarrow> string list list \<times> (exn + whois_info)" where
  "get_whois_info w ip_address =
     (if startswith ip_address private_prefixes then ([], Inr default_whois_info)
      else
        ([[''whois'', ip_address]],
         case subprocess_check_output w [''whois'', ip_address] of
           Inl e \<Rightarrow> if get_whois_info_except e then Inr default_whois_info else Inl e
         | Inr whois_output \<Rightarrow>
             (let i1 = (case re_search org_name_rx whois_output of
                          Some m \<Rightarrow> default_whois_info\<lparr>org_name := strip (match_group m 2)\<rparr>
                        | None \<Rightarrow> default_whois_info);
                  i2 = (case re_search country_rx whois_output of
                          Some m \<Rightarrow> i1\<lparr>country := strip (match_group m 2)\<rparr>
                        | None \<Rightarrow> i1)
              in Inr i2)))"

text \<open>The dotted-decimal text of the address with the four octets \<open>a\<close>, \<open>b\<close>, \<open>c\<close>, \<open>d\<close>.\<close>

definition dotted_quad :: "nat \<Rightarrow> nat \<Rightarrow> nat \<Rightarrow> nat \<Rightarrow> string" where
  "dotted_quad a b c d = str_nat a @ ''.'' @ str_nat b @ ''.'' @ str_nat c @ ''.'' @ str_nat d"

section \<open>run_traceroute\<close>

record hop_record =
  hop :: int
  hostname :: string
  ip :: string
  latency :: number
  whois :: whois_info

text \<open>
  The line patterns, Windows first as in the source:
  \<^verbatim>\<open>^\s*(\d+)\s+[\d.<*]+ms\s+[\d.<*]+ms\s+[\d.<*]+ms\s+([a-zA-Z0-9.-]+)\s+\[([\d.]+|Request)\]\<close>,
  \<^verbatim>\<open>^\s*(\d+)\s+\* \*\s*\*.*\<close>,
  \<^verbatim>\<open>^\s*(\d+)\s+([^\s]+)\s+\(([\d.]+)\).*?([\d.]+) ms\<close> and
  \<^verbatim>\<open>^\s*\d+\s+\* \*\s*\*.*\<close>.
\<close>

definition win_hop_rx :: rx where
  "win_hop_rx =
     cat [Bol, Star (In whitespace), Grp 1 (Plus (In digits)), Plus (In whitespace),
          Plus (In (digits @ ''.<*'')), Lit ''ms'', Plus (In whitespace),
          Plus (In (digits @ ''.<*'')), Lit ''ms'', Plus (In whitespace),
          Plus (In (digits @ ''.<*'')), Lit ''ms'', Plus (In whitespace),
          Grp 2 (Plus (In (''abcdefghijklmnopqrstuvwxyzABCDEFGHIJKLMNOPQRSTUVWXYZ'' @ digits @ ''.-''))),
          Plus (In whitespace), Lit ''['',
          Grp 3 (Alt (Plus (In (digits @ ''.''))) (Lit ''Request'')), Lit '']'']"

definition win_timeout_rx :: rx where
  "win_timeout_rx =
     cat [Bol, Star (In whitespace), Grp 1 (Plus (In digits)), Plus (In whitespace),
          Lit ''* *'', Star (In whitespace), Lit ''*'', Star (NotIn [CHR 0x0A])]"

definition unix_hop_rx :: rx where
  "unix_hop_rx =
     cat [Bol, Star (In whitespace), Grp 1 (Plus (In digits)), Plus (In whitespace),
          Grp 2 (Plus (NotIn whitespace)), Plus (In whitespace),
          Lit ''('', Grp 3 (Plus (In (digits @ ''.''))), Lit '')'',
          LazyStar (NotIn [CHR 0x0A]), Grp 4 (Plus (In (digits @ ''.''))), Lit '' ms'']"

definition unix_timeout_rx :: rx where
  "unix_timeout_rx =
     cat [Bol, Star (In whitespace), Plus (In digits), Plus (In whitespace),
          Lit ''* *'', Star (In whitespace), Lit ''*'', Star (NotIn [CHR 0x0A])]"

definition timed_out_hop :: "int \<Rightarrow> hop_record" where
  "timed_out_hop hop_num =
     \<lparr>hop = hop_num, hostname = ''Timed Out'', ip = ''Timed Out'', latency = PyInt (- 1),
      whois = \<lparr>org_name = ''N/A'', country = ''N/A''\<rparr>\<rparr>"

definition failed_hop :: hop_record where
  "failed_hop =
     \<lparr>hop = - 1, hostname = ''Traceroute Failed'', ip = ''Traceroute Failed'',
      latency = PyInt (- 1), whois = \<lparr>org_name = ''N/A'', country = ''N/A''\<rparr>\<rparr>"

text \<open>\<open>int(line.strip().split()[0])\<close>\<close>

definition first_token_int :: "string \<Rightarrow> exn + int" where
  "first_token_int line =
     (case split (strip line) of [] \<Rightarrow> Inl IndexError | t # _ \<Rightarrow> py_int t)"

text \<open>
  One turn of the loop over the lines: the records it appends, or the exception it raises.
  In the Windows branch \<open>match(3)\<close> calls the match object, which raises \<open>TypeError\<close>.
\<close>

definition traceroute_line :: "world \<Rightarrow> string \<Rightarrow> exn + hop_record list" where
  "traceroute_line w line =
     (if line = [] then Inr []
      else if platform_system w = ''Windows'' then
        (case re_search win_hop_rx line of
           Some m \<Rightarrow> bind_exn (py_int (match_group m 1)) (\<lambda>hop_num. Inl TypeError)
         | None \<Rightarrow>
             (case re_search win_timeout_rx line of
                Some _ \<Rightarrow> bind_exn (first_token_int line) (\<lambda>hop_num. Inr [timed_out_hop hop_num])
              | None \<Rightarrow> Inr []))
      else
        (case re_search unix_hop_rx line of
           Some m \<Rightarrow>
             bind_exn (py_int (match_group m 1)) (\<lambda>hop_num.
             bind_exn (py_float (match_group m 4)) (\<lambda>lat.
             bind_exn (snd (get_whois_info w (match_group m 3))) (\<lambda>info.
               Inr [\<lparr>hop = hop_num, hostname = match_group m 2, ip = match_group m 3,
                     latency = PyFloat lat, whois = info\<rparr>])))
         | None \<Rightarrow>
             (case re_search unix_timeout_rx line of
                Some _ \<Rightarrow> bind_exn (first_token_int line) (\<lambda>hop_num. Inr [timed_out_hop hop_num])
              | None \<Rightarrow> Inr [])))"

text \<open>The loop: the records collected, and the exception that ended it, if one did.\<close>

fun traceroute_lines ::
  "world \<Rightarrow> string list \<Rightarrow> hop_record list \<Rightarrow> hop_record list \<times> exn option" where
  "traceroute_lines w [] traceroute_results = (traceroute_results, None)"
| "traceroute_lines w (line # lines) traceroute_results =
     (case traceroute_line w line of
        Inl e \<Rightarrow> (traceroute_results, Some e)
      | Inr hs \<Rightarrow> traceroute_lines w lines (traceroute_results @ hs))"

definition traceroute_command :: "world \<Rightarrow> string \<Rightarrow> string list" where
  "traceroute_command w host =
     (if platform_system w = ''Windows'' then [''tracert'', ''-w'', ''1000'', host]
      else [''traceroute'', ''-w'', ''1'', host])"

definition run_traceroute_except :: "exn \<Rightarrow> bool" where
  "run_traceroute_except e =
     (e = TimeoutExpired \<or> e = FileNotFoundError \<or> e = IndexError \<or> e = ValueError
      \<or> e = CalledProcessError)"

definition run_traceroute :: "world \<Rightarrow> string \<Rightarrow> exn + hop_record list" where
  "run_traceroute w host =
     (case (case subprocess_check_output w (traceroute_command w host) of
              Inl e \<Rightarrow> ([], Some e)
            | Inr full_traceroute_output \<Rightarrow>
                traceroute_lines w (splitlines full_traceroute_output) []) of
        (traceroute_results, None) \<Rightarrow> Inr traceroute_results
      | (traceroute_results, Some e) \<Rightarrow>
          if run_traceroute_except e then Inr (traceroute_results @ [failed_hop]) else Inl e)"

section \<open>The gauges, the log file and the alerts\<close>

text \<open>
  The state the monitoring loop changes: the Prometheus gauges (a labelled gauge is a map
  from its label values \<open>(hop, ip, hostname)\<close> to the value set), the content of the log
  file, the sound files handed to \<open>play_sound_mac\<close>, and what was printed.
\<close>

record monitor =
  PING_LATENCY_GAUGE :: real
  PACKET_LOSS_GAUGE :: real
  TRACEROUTE_HOPS_GAUGE :: real
  TRACEROUTE_HOP_LATENCY :: "string \<times> string \<times> string \<rightharpoonup> real"
  bytes_received_gauge :: real
  bytes_transmitted_gauge :: real
  APPLICATION_RESPONSE_TIME_GAUGE :: real
  packets_dropped_gauge :: real
  LOG_FILE :: string
  sounds :: "string list"
  console :: "string list"

definition INTERNET_HOST :: string where "INTERNET_HOST = ''8.8.8.8''"
definition APPLICATION_URL :: string where "APPLICATION_URL = ''https://www.google.com''"
definition SOUND_ENABLED :: bool where "SOUND_ENABLED = True"
definition YELLOW_SOUND_PATH :: string where "YELLOW_SOUND_PATH = ''yellow_alert.wav''"
definition RED_SOUND_PATH :: string where "RED_SOUND_PATH = ''red_alert.wav''"
definition GREEN :: string where "GREEN = CHR 0x1B # ''[92m''"
definition YELLOW :: string where "YELLOW = CHR 0x1B # ''[93m''"
definition RED :: string where "RED = CHR 0x1B # ''[91m''"
definition RESET :: string where "RESET = CHR 0x1B # ''[0m''"
definition NL :: string where "NL = [CHR 0x0A]"

section \<open>get_network_interface_stats and check_application_response_time\<close>

definition get_network_interface_stats :: "world \<Rightarrow> monitor \<Rightarrow> monitor" where
  "get_network_interface_stats w m =
     (case psutil_net_io_counters w of
        Inr (Some net_io) \<Rightarrow>
          m\<lparr>bytes_received_gauge := real (bytes_recv net_io),
            bytes_transmitted_gauge := real (bytes_sent net_io),
            packets_dropped_gauge := real (dropin net_io + dropout net_io)\<rparr>
      | Inr None \<Rightarrow>
          m\<lparr>bytes_received_gauge := 0, bytes_transmitted_gauge := 0, packets_dropped_gauge := 0\<rparr>
      | Inl e \<Rightarrow>
          m\<lparr>bytes_received_gauge := 0, bytes_transmitted_gauge := 0, packets_dropped_gauge := 0\<rparr>)"

text \<open>\<open>response.raise_for_status()\<close>: an \<open>HTTPError\<close> for a 4xx or 5xx status.\<close>

definition raise_for_status :: "nat \<Rightarrow> exn + unit" where
  "raise_for_status status_code =
     (if 400 \<le> status_code \<and> status_code < 600 then Inl RequestException else Inr ())"

definition check_application_response_time :: "world \<Rightarrow> string \<Rightarrow> exn + number" where
  "check_application_response_time w url =
     (case bind_exn (requests_get w url) (\<lambda>status_code.
             let response_time = (end_time w - start_time w) * 1000
             in bind_exn (raise_for_status status_code) (\<lambda>_. Inr (PyFloat response_time))) of
        Inr t \<Rightarrow> Inr t
      | Inl e \<Rightarrow> if e = RequestException then Inr (PyInt (- 1)) else Inl e)"

section \<open>One cycle of main\<close>

text \<open>\<open>str(x)\<close> of a number, with the rendering of floats taken from the environment.\<close>

definition str_number :: "world \<Rightarrow> number \<Rightarrow> string" where
  "str_number w x = (case x of PyInt i \<Rightarrow> str_int i | PyFloat r \<Rightarrow> str_float w r)"

text \<open>
  The loop over the hops that follows \<open>TRACEROUTE_HOP_LATENCY.clear()\<close>: a record whose
  latency is not \<open>-1\<close> sets the series of its labels.
\<close>

fun set_hop_latencies ::
  "hop_record list \<Rightarrow> (string \<times> string \<times> string \<rightharpoonup> real)
     \<Rightarrow> (string \<times> string \<times> string \<rightharpoonup> real)" where
  "set_hop_latencies [] g = g"
| "set_hop_latencies (h # hs) g =
     set_hop_latencies hs
       (if val (latency h) \<noteq> - 1
        then g((str_int (hop h), ip h, hostname h) \<mapsto> val (latency h)) else g)"

text \<open>Lines 351 to 369: the gauges are updated from the results of the probes.\<close>

definition update_metrics ::
  "ping_result \<Rightarrow> hop_record list \<Rightarrow> number \<Rightarrow> monitor \<Rightarrow> monitor" where
  "update_metrics internet_ping_result traceroute_results application_response_time m =
     (let m1 = m\<lparr>PING_LATENCY_GAUGE := val (avg_latency internet_ping_result),
                  PACKET_LOSS_GAUGE := of_int (packet_loss internet_ping_result),
                  TRACEROUTE_HOPS_GAUGE := real (length traceroute_results)\<rparr>;
          m2 = (if val application_response_time \<noteq> - 1
                then m1\<lparr>APPLICATION_RESPONSE_TIME_GAUGE := val application_response_time\<rparr>
                else m1)
      in m2\<lparr>TRACEROUTE_HOP_LATENCY := set_hop_latencies traceroute_results Map.empty\<rparr>)"

text \<open>
  Lines 371 to 383: the colour of the report and the sound files handed to the player
  thread. Green is the nominal status, yellow the degraded one, red the outage.
\<close>

definition determine_color :: "int \<Rightarrow> string \<times> string list" where
  "determine_color loss =
     (if loss = 0 then (GREEN, [])
      else if loss > 0 \<and> loss < 100
      then (YELLOW, if SOUND_ENABLED then [YELLOW_SOUND_PATH] else [])
      else (RED, if SOUND_ENABLED then [RED_SOUND_PATH] else []))"

fun hop_lines :: "world \<Rightarrow> hop_record list \<Rightarrow> string" where
  "hop_lines w [] = []"
| "hop_lines w (h # hs) =
     (if val (latency h) \<noteq> - 1
      then NL @ ''  Hop '' @ str_int (hop h) @ '': '' @ hostname h @ '' ('' @ ip h @ '') (''
           @ str_number w (latency h) @ ''ms)''
      else NL @ ''  Hop '' @ str_int (hop h) @ '': '' @ hostname h @ '' ('' @ ip h @ '')'')
     @ (if org_name (whois h) \<noteq> ''N/A''
        then NL @ ''    - Owned by: '' @ org_name (whois h) @ '', Country: '' @ country (whois h)
        else [])
     @ hop_lines w hs"

text \<open>Lines 385 to 413: the text of the report.\<close>

definition console_output ::
  "world \<Rightarrow> ping_result \<Rightarrow> hop_record list \<Rightarrow> number \<Rightarrow> string" where
  "console_output w internet_ping_result traceroute_results application_response_time =
     NL @ datetime_now w
     @ NL @ ''--------------------------------------------''
     @ (if success internet_ping_result
        then NL @ ''- The internet connection is STABLE.''
             @ '' Latency is at '' @ str_number w (avg_latency internet_ping_result) @ ''ms with ''
             @ str_int (packet_loss internet_ping_result) @ ''% packet loss.''
        else NL @ ''- The internet connection is DOWN.''
             @ '' There is '' @ str_int (packet_loss internet_ping_result)
             @ ''% packet loss to the internet, indicating a complete outage.'')
     @ (if val application_response_time \<noteq> - 1
        then NL @ ''- The application response time for '' @ APPLICATION_URL @ '' is ''
             @ format_2f w (val application_response_time) @ ''ms.''
        else NL @ ''- Failed to get application response time for '' @ APPLICATION_URL @ ''.'')
     @ (if traceroute_results \<noteq> []
        then NL @ NL @ ''Path to '' @ INTERNET_HOST @ '':'' @ hop_lines w traceroute_results
        else [])"

text \<open>Lines 417 to 420: whether the report is appended to the log file.\<close>

definition log_condition :: "int \<Rightarrow> hop_record list \<Rightarrow> bool" where
  "log_condition loss traceroute_results =
     (loss > 0 \<or> list_ex (\<lambda>h. val (latency h) = - 1) traceroute_results)"

text \<open>Lines 351 to 420, after the four probes have returned.\<close>

definition publish_and_report ::
  "world \<Rightarrow> ping_result \<Rightarrow> hop_record list \<Rightarrow> number \<Rightarrow> monitor \<Rightarrow> monitor" where
  "publish_and_report w internet_ping_result traceroute_results application_response_time m =
     (let loss = packet_loss internet_ping_result;
          m1 = update_metrics internet_ping_result traceroute_results application_response_time m;
          (color, alerts) = determine_color loss;
          m2 = m1\<lparr>sounds := sounds m1 @ alerts\<rparr>;
          report = console_output w internet_ping_result traceroute_results
                     application_response_time;
          m3 = m2\<lparr>console := console m2 @ [color @ report @ RESET]\<rparr>
      in if log_condition loss traceroute_results
         then m3\<lparr>LOG_FILE := LOG_FILE m3 @ report @ NL\<rparr>
         else m3)"

text \<open>
  One turn of the \<open>while True\<close> loop. An exception that a probe lets through ends the
  program: \<open>main\<close> catches \<open>KeyboardInterrupt\<close> only.
\<close>

definition cycle :: "world \<Rightarrow> monitor \<Rightarrow> exn + monitor" where
  "cycle w m =
     bind_exn (check_connection w INTERNET_HOST) (\<lambda>internet_ping_result.
     bind_exn (run_traceroute w INTERNET_HOST) (\<lambda>traceroute_results.
       let m1 = get_network_interface_stats w m
       in bind_exn (check_application_response_time w APPLICATION_URL)
            (\<lambda>application_response_time.
               Inr (publish_and_report w internet_ping_result traceroute_results
                      application_response_time m1))))"

text \<open>
  The loop, for the cycles that run before the program is interrupted: one environment
  for each cycle.
\<close>

fun cycles :: "world list \<Rightarrow> monitor \<Rightarrow> exn + monitor" where
  "cycles [] m = Inr m"
| "cycles (w # ws) m = bind_exn (cycle w m) (cycles ws)"

section \<open>Example environments\<close>

text \<open>
  A Linux host where every probe succeeds: four replies, one hop on the path, and the
  application answers with status 200.
\<close>

definition world_nominal :: world where
  "world_nominal =
     \<lparr>platform_system = ''Linux'',
      subprocess_run = (\<lambda>command.
        Inr (''0% packet loss'' @ NL @ ''rtt min/avg/max/mdev = 9.1/12.3/15.0/1.2 ms'')),
      subprocess_check_output = (\<lambda>command. Inr '' 1  gw (192.168.1.1)  1.5 ms''),
      psutil_net_io_counters =
        Inr (Some \<lparr>bytes_recv = 1000, bytes_sent = 500, dropin = 0, dropout = 0\<rparr>),
      requests_get = (\<lambda>url. Inr 200),
      start_time = 10,
      end_time = 10.25,
      datetime_now = ''2024-01-01 00:00:00'',
      str_float = (\<lambda>r. ''<float>''),
      format_2f = (\<lambda>r. ''<float:.2f>'')\<rparr>"

text \<open>The summary line alone, with a quarter of the packets lost.\<close>

definition world_degraded :: world where
  "world_degraded = world_nominal\<lparr>subprocess_run := (\<lambda>command. Inr ''25% packet loss'')\<rparr>"

text \<open>A summary line that reports more packets lost than sent.\<close>

definition world_150 :: world where
  "world_150 = world_nominal\<lparr>subprocess_run := (\<lambda>command. Inr ''150% packet loss'')\<rparr>"

text \<open>A summary line whose loss figure has 4301 digits.\<close>

definition world_long_loss :: world where
  "world_long_loss =
     world_nominal\<lparr>subprocess_run := (\<lambda>command.
        Inr (replicate 4301 CHR ''9'' @ ''% packet loss''))\<rparr>"

text \<open>The ping program is there, but may not be executed.\<close>

definition world_permission_denied :: world where
  "world_permission_denied =
     world_nominal\<lparr>subprocess_run := (\<lambda>command. Inl PermissionError)\<rparr>"

text \<open>An output that matches neither pattern.\<close>

definition world_unknown_host :: world where
  "world_unknown_host =
     world_nominal\<lparr>subprocess_run := (\<lambda>command. Inr ''ping: unknown host'')\<rparr>"

text \<open>Every child process times out and the HTTP request fails.\<close>

definition world_outage :: world where
  "world_outage =
     world_nominal\<lparr>subprocess_run := (\<lambda>command. Inl TimeoutExpired),
                   subprocess_check_output := (\<lambda>command. Inl TimeoutExpired),
                   requests_get := (\<lambda>url. Inl RequestException)\<rparr>"

text \<open>The application answers with status 500.\<close>

definition world_500 :: world where
  "world_500 = world_nominal\<lparr>requests_get := (\<lambda>url. Inr 500)\<rparr>"

text \<open>The path discovery prints its header line and nothing else.\<close>

definition world_header_only :: world where
  "world_header_only =
     world_nominal\<lparr>subprocess_check_output := (\<lambda>command.
        Inr ''traceroute to 8.8.8.8 (8.8.8.8), 30 hops max, 60 byte packets'')\<rparr>"

text \<open>A path of two hops, the second of which does not answer.\<close>

definition world_two_hops :: world where
  "world_two_hops =
     world_nominal\<lparr>subprocess_check_output := (\<lambda>command.
        Inr ('' 1  gw (192.168.1.1)  1.5 ms'' @ NL @ '' 2  * * *''))\<rparr>"

text \<open>The gauges as the Prometheus client creates them, an empty log, no alert yet.\<close>

definition monitor0 :: monitor where
  "monitor0 =
     \<lparr>PING_LATENCY_GAUGE = 0, PACKET_LOSS_GAUGE = 0, TRACEROUTE_HOPS_GAUGE = 0,
      TRACEROUTE_HOP_LATENCY = Map.empty, bytes_received_gauge = 0,
      bytes_transmitted_gauge = 0, APPLICATION_RESPONSE_TIME_GAUGE = 0,
      packets_dropped_gauge = 0, LOG_FILE = [], sounds = [], console = []\<rparr>"

text \<open>The state an earlier cycle has left: gauges set, and a series for a third hop.\<close>

definition monitor_earlier :: monitor where
  "monitor_earlier =
     monitor0\<lparr>PING_LATENCY_GAUGE := 12.3,
              TRACEROUTE_HOPS_GAUGE := 3,
              TRACEROUTE_HOP_LATENCY := [(''3'', ''8.8.8.8'', ''dns.google'') \<mapsto> 10.25],
              APPLICATION_RESPONSE_TIME_GAUGE := 250\<rparr>"

section \<open>Auxiliary facts\<close>

lemma bind_exn_simps:
  "bind_exn (Inl e) f = Inl e" "bind_exn (Inr v) f = f v"
  by (simp_all add: bind_exn_def)

lemma take_le_takeWhile:
  assumes k: "k \<le> length (takeWhile P s)"
  shows "list_all P (take k s)"
proof -
  have "take k s = take k (takeWhile P s @ dropWhile P s)" by simp
  also have "\<dots> = take k (takeWhile P s)" using k by (simp del: takeWhile_dropWhile_id)
  finally have "set (take k s) \<subseteq> set (takeWhile P s)" by (simp add: set_take_subset)
  then show ?thesis by (auto simp: list_all_iff dest: set_takeWhileD)
qed

lemma rx_match_Grp_Plus:
  assumes "st \<in> set (rx_match (Grp n (Plus cs)) (p, s, g))"
  shows "\<exists>k. 1 \<le> k \<and> k \<le> length (takeWhile (cmem cs) s)
             \<and> st = (p + k, drop k s, (n, take k s) # g)"
  using assms by auto

lemma rx_match_Lit_groups:
  "st' \<in> set (rx_match (Lit l) st) \<Longrightarrow> snd (snd st') = snd (snd st)"
  by (cases st) (auto split: if_splits)

lemma search_from_member:
  "search_from r i s = Some m \<Longrightarrow> \<exists>j t. \<exists>st \<in> set (rx_match r (j, t, [])). m = snd (snd st)"
proof (induction s arbitrary: i)
  case Nil
  then show ?case by (auto split: list.splits) (metis list.set_intros(1) snd_conv)
next
  case (Cons c s)
  show ?case
  proof (cases "rx_match r (i, c # s, [])")
    case Nil
    with Cons show ?thesis by simp
  next
    case (Cons st sts)
    with Cons.prems have "m = snd (snd st)" by simp
    moreover have "st \<in> set (rx_match r (i, c # s, []))" using Cons by simp
    ultimately show ?thesis by blast
  qed
qed

lemma digit_run_group:
  assumes st1: "st1 \<in> set (rx_match (Grp 1 (Plus (In digits))) (j, t, []))"
    and st2: "st \<in> set (rx_match (Lit l) st1)"
  shows "match_group (snd (snd st)) 1 \<noteq> [] \<and> list_all isdigit (match_group (snd (snd st)) 1)"
proof -
  from rx_match_Grp_Plus[OF st1] obtain k
    where k: "1 \<le> k" "k \<le> length (takeWhile (cmem (In digits)) t)"
      and st1_eq: "st1 = (j + k, drop k t, [(1, take k t)])" by blast
  have "snd (snd st) = [(1, take k t)]" using rx_match_Lit_groups[OF st2] st1_eq by simp
  hence g: "match_group (snd (snd st)) 1 = take k t" by (simp add: match_group_def)
  have "list_all (cmem (In digits)) (take k t)" using k(2) by (rule take_le_takeWhile)
  hence "list_all isdigit (take k t)" by (simp add: isdigit_def list_all_iff)
  moreover have "take k t \<noteq> []" using k by (cases t) auto
  ultimately show ?thesis using g by simp
qed

lemma unix_packet_loss_group:
  assumes "re_search unix_packet_loss_rx s = Some m"
  shows "match_group m 1 \<noteq> [] \<and> list_all isdigit (match_group m 1)"
proof -
  from assms obtain j t st where st: "st \<in> set (rx_match unix_packet_loss_rx (j, t, []))"
    and m: "m = snd (snd st)"
    unfolding re_search_def by (blast dest: search_from_member)
  from st obtain st1 where "st1 \<in> set (rx_match (Grp 1 (Plus (In digits))) (j, t, []))"
    and "st \<in> set (rx_match (Lit ''% packet loss'') st1)"
    by (auto simp: unix_packet_loss_rx_def cat_def simp del: rx_match.simps(2,9))
  then show ?thesis unfolding m by (rule digit_run_group)
qed

lemma win_packet_loss_group:
  assumes "re_search win_packet_loss_rx s = Some m"
  shows "match_group m 1 \<noteq> [] \<and> list_all isdigit (match_group m 1)"
proof -
  from assms obtain j t st where st: "st \<in> set (rx_match win_packet_loss_rx (j, t, []))"
    and m: "m = snd (snd st)"
    unfolding re_search_def by (blast dest: search_from_member)
  from st obtain st0 st1 where "st0 \<in> set (rx_match (Lit ''('') (j, t, []))"
    and "st1 \<in> set (rx_match (Grp 1 (Plus (In digits))) st0)"
    and st2: "st \<in> set (rx_match (Lit ''% loss)'') st1)"
    by (auto simp: win_packet_loss_rx_def cat_def simp del: rx_match.simps(2,9))
  moreover from this obtain j' t' where "st0 = (j', t', [])"
    by (auto split: if_splits)
  ultimately show ?thesis unfolding m by (metis digit_run_group)
qed

lemma packet_loss_digits:
  assumes "(if platform_system w = ''Windows'' then re_search win_packet_loss_rx output
            else re_search unix_packet_loss_rx output) = Some m"
  shows "match_group m 1 \<noteq> [] \<and> list_all isdigit (match_group m 1)"
  using assms unix_packet_loss_group win_packet_loss_group
  by (auto split: if_splits)

lemma py_int_value: "py_int s = Inr v \<Longrightarrow> v = int (nat_of_digits s) \<and> 0 \<le> v"
  by (auto simp: py_int_def split: if_splits)

lemma py_int_long: "int_max_str_digits < length s \<Longrightarrow> py_int s = Inl ValueError"
  by (simp add: py_int_def)

lemma hd_concat_map:
  "xs \<noteq> [] \<Longrightarrow> f (hd xs) \<noteq> [] \<Longrightarrow>
     concat (map f xs) \<noteq> [] \<and> hd (concat (map f xs)) = hd (f (hd xs))"
  by (cases xs) auto

lemma search_from_hd:
  "rx_match r (i, s, []) \<noteq> [] \<Longrightarrow>
     search_from r i s = Some (snd (snd (hd (rx_match r (i, s, [])))))"
  by (cases s; cases "rx_match r (i, s, [])") simp_all

lemma rx_match_Grp_Plus_hd:
  assumes "takeWhile (cmem cs) (ds @ t) = ds" and "ds \<noteq> []"
  shows "rx_match (Grp n (Plus cs)) (p, ds @ t, g) \<noteq> []
         \<and> hd (rx_match (Grp n (Plus cs)) (p, ds @ t, g)) = (p + length ds, t, (n, ds) # g)"
  using assms by (simp add: hd_map hd_rev del: upt_Suc)

lemma unix_packet_loss_search:
  assumes ne: "ds \<noteq> []" and dig: "list_all isdigit ds"
  shows "re_search unix_packet_loss_rx (ds @ ''% packet loss'') = Some [(1, ds)]"
proof -
  let ?s = "ds @ ''% packet loss''"
  let ?a = "rx_match (Grp 1 (Plus (In digits))) (0, ?s, [])"
  let ?f = "rx_match (Seq (Lit ''% packet loss'') Eps)"
  have tw: "takeWhile (cmem (In digits)) ?s = ds"
    using dig by (simp add: takeWhile_append2 list_all_iff isdigit_def digits_def)
  from rx_match_Grp_Plus_hd[OF tw ne, of 1 0 "[]"]
  have a: "?a \<noteq> []" and h: "hd ?a = (length ds, ''% packet loss'', [(1, ds)])"
    by simp_all
  have l: "?f (hd ?a) = [(length ds + 13, [], [(1, ds)])]"
    unfolding h by simp
  have m: "rx_match unix_packet_loss_rx (0, ?s, []) = concat (map ?f ?a)"
    by (simp only: unix_packet_loss_rx_def cat_def foldr.simps o_apply id_apply rx_match.simps(7))
  have ne2: "?f (hd ?a) \<noteq> []" unfolding l by simp
  note c = hd_concat_map[of ?a ?f, OF a ne2]
  have n: "rx_match unix_packet_loss_rx (0, ?s, []) \<noteq> []"
    unfolding m by (rule c[THEN conjunct1])
  have "hd (rx_match unix_packet_loss_rx (0, ?s, [])) = (length ds + 13, [], [(1, ds)])"
    unfolding m c[THEN conjunct2] l by (simp only: list.sel)
  with search_from_hd[OF n]
  have "search_from unix_packet_loss_rx 0 ?s = Some [(1, ds)]" by (simp only: snd_conv)
  then show ?thesis by (simp add: re_search_def)
qed

lemma search_from_Lit_absent:
  "c0 \<notin> set s \<Longrightarrow> search_from (Seq (Lit (c0 # l)) r) i s = None"
  by (induction s arbitrary: i) auto

lemma unix_avg_latency_none:
  "CHR ''m'' \<notin> set s \<Longrightarrow> re_search unix_avg_latency_rx s = None"
  unfolding unix_avg_latency_rx_def cat_def foldr.simps o_apply re_search_def
  by (rule search_from_Lit_absent)

lemma nat_of_digits_nines: "n \<le> nat_of_digits (replicate n CHR ''9'')"
proof (induction n)
  case 0
  then show ?case by simp
next
  case (Suc n)
  have "nat_of_digits (replicate (Suc n) CHR ''9'')
        = 10 * nat_of_digits (replicate n CHR ''9'') + digit_val CHR ''9''"
    unfolding replicate_Suc replicate_append_same[symmetric]
    by (simp add: nat_of_digits_def)
  moreover have "digit_val CHR ''9'' = 9" by (simp add: digit_val_def)
  ultimately show ?case using Suc by simp
qed

lemma str_nat_octets:
  "str_nat 10 = ''10''" "str_nat 172 = ''172''" "str_nat 192 = ''192''" "str_nat 168 = ''168''"
  "str_nat 16 = ''16''" "str_nat 17 = ''17''" "str_nat 18 = ''18''" "str_nat 19 = ''19''"
  "str_nat 20 = ''20''" "str_nat 21 = ''21''" "str_nat 22 = ''22''" "str_nat 23 = ''23''"
  "str_nat 24 = ''24''" "str_nat 25 = ''25''" "str_nat 26 = ''26''" "str_nat 27 = ''27''"
  "str_nat 28 = ''28''" "str_nat 29 = ''29''" "str_nat 30 = ''30''" "str_nat 31 = ''31''"
  by code_simp+

lemma startswith_10: "startswith (''10.'' @ s) private_prefixes"
  by (simp add: startswith_def private_prefixes_def)

lemma startswith_192_168: "startswith (''192.168.'' @ s) private_prefixes"
  by (simp add: startswith_def private_prefixes_def)

lemma startswith_172:
  assumes "16 \<le> b" "b \<le> 31"
  shows "startswith (''172.'' @ str_nat b @ ''.'' @ s) private_prefixes"
proof -
  from assms have "b = 16 \<or> b = 17 \<or> b = 18 \<or> b = 19 \<or> b = 20 \<or> b = 21 \<or> b = 22 \<or> b = 23
      \<or> b = 24 \<or> b = 25 \<or> b = 26 \<or> b = 27 \<or> b = 28 \<or> b = 29 \<or> b = 30 \<or> b = 31"
    by arith
  then show ?thesis
    by (elim disjE) (simp_all add: str_nat_octets startswith_def private_prefixes_def)
qed

lemma traceroute_lines_None:
  "traceroute_lines w lines acc = (res, None) \<Longrightarrow>
     (res = [] \<longleftrightarrow> acc = [] \<and> (\<forall>l \<in> set lines. traceroute_line w l = Inr []))"
proof (induction lines arbitrary: acc)
  case Nil
  then show ?case by simp
next
  case (Cons l lines)
  then show ?case by (cases "traceroute_line w l") auto
qed

lemma traceroute_lines_Some:
  "traceroute_lines w lines acc = (res, Some e) \<Longrightarrow> \<exists>l \<in> set lines. traceroute_line w l = Inl e"
proof (induction lines arbitrary: acc)
  case Nil
  then show ?case by simp
next
  case (Cons l lines)
  then show ?case by (cases "traceroute_line w l") auto
qed

lemma unix_line_skipped:
  assumes "platform_system w \<noteq> ''Windows''"
  shows "traceroute_line w l = Inr [] \<longleftrightarrow>
           l = [] \<or> (re_search unix_hop_rx l = None \<and> re_search unix_timeout_rx l = None)"
  using assms
  by (auto simp: traceroute_line_def bind_exn_def split: option.splits sum.splits)

lemma check_connection_success:
  "check_connection w host = Inr r \<Longrightarrow> success r = (packet_loss r < 100)"
  by (auto simp: check_connection_def check_connection_try_def bind_exn_def
        split: sum.splits if_splits option.splits)

lemma cycle_Inr:
  assumes "check_connection w INTERNET_HOST = Inr r"
    and "run_traceroute w INTERNET_HOST = Inr hops"
    and "check_application_response_time w APPLICATION_URL = Inr art"
  shows "cycle w m = Inr (publish_and_report w r hops art (get_network_interface_stats w m))"
  using assms by (simp add: cycle_def bind_exn_simps)

lemma cycle_InrD:
  assumes "cycle w m = Inr m'"
  shows "\<exists>r hops art. check_connection w INTERNET_HOST = Inr r
           \<and> run_traceroute w INTERNET_HOST = Inr hops
           \<and> check_application_response_time w APPLICATION_URL = Inr art
           \<and> m' = publish_and_report w r hops art (get_network_interface_stats w m)"
  using assms by (auto simp: cycle_def bind_exn_def Let_def split: sum.splits)

lemma get_network_interface_stats_frame:
  "PING_LATENCY_GAUGE (get_network_interface_stats w m) = PING_LATENCY_GAUGE m"
  "TRACEROUTE_HOP_LATENCY (get_network_interface_stats w m) = TRACEROUTE_HOP_LATENCY m"
  "APPLICATION_RESPONSE_TIME_GAUGE (get_network_interface_stats w m)
     = APPLICATION_RESPONSE_TIME_GAUGE m"
  "LOG_FILE (get_network_interface_stats w m) = LOG_FILE m"
  "sounds (get_network_interface_stats w m) = sounds m"
  "console (get_network_interface_stats w m) = console m"
  by (simp_all add: get_network_interface_stats_def split: sum.splits option.splits)

lemma publish_and_report_gauges:
  "PING_LATENCY_GAUGE (publish_and_report w r hops art m) = val (avg_latency r)"
  "TRACEROUTE_HOPS_GAUGE (publish_and_report w r hops art m) = real (length hops)"
  "TRACEROUTE_HOP_LATENCY (publish_and_report w r hops art m)
     = set_hop_latencies hops Map.empty"
  "APPLICATION_RESPONSE_TIME_GAUGE (publish_and_report w r hops art m)
     = (if val art \<noteq> - 1 then val art else APPLICATION_RESPONSE_TIME_GAUGE m)"
  by (simp_all add: publish_and_report_def update_metrics_def Let_def split: prod.splits)

lemma publish_and_report_outputs:
  "sounds (publish_and_report w r hops art m) = sounds m @ snd (determine_color (packet_loss r))"
  "console (publish_and_report w r hops art m)
     = console m @ [fst (determine_color (packet_loss r)) @ console_output w r hops art @ RESET]"
  "LOG_FILE (publish_and_report w r hops art m)
     = (if log_condition (packet_loss r) hops
        then LOG_FILE m @ console_output w r hops art @ NL else LOG_FILE m)"
  by (simp_all add: publish_and_report_def update_metrics_def Let_def split: prod.splits)

lemma dom_set_hop_latencies:
  "dom (set_hop_latencies hs g)
   = dom g \<union> (\<lambda>h. (str_int (hop h), ip h, hostname h)) ` {h \<in> set hs. val (latency h) \<noteq> - 1}"
  by (induction hs arbitrary: g) auto

lemma set_hop_latencies_Some:
  "set_hop_latencies hs g k = Some v \<Longrightarrow>
     g k = Some v
     \<or> (\<exists>h \<in> set hs. k = (str_int (hop h), ip h, hostname h)
            \<and> val (latency h) \<noteq> - 1 \<and> v = val (latency h))"
proof (induction hs arbitrary: g)
  case Nil
  then show ?case by simp
next
  case (Cons a hs)
  let ?g = "if val (latency a) \<noteq> - 1
            then g((str_int (hop a), ip a, hostname a) \<mapsto> val (latency a)) else g"
  from Cons.prems have "set_hop_latencies hs ?g k = Some v" by simp
  from Cons.IH[OF this]
  consider "?g k = Some v"
    | "\<exists>h \<in> set hs. k = (str_int (hop h), ip h, hostname h)
            \<and> val (latency h) \<noteq> - 1 \<and> v = val (latency h)"
    by blast
  then show ?case
  proof cases
    case 1
    then show ?thesis by (cases "k = (str_int (hop a), ip a, hostname a)") (auto split: if_splits)
  next
    case 2
    then show ?thesis by auto
  qed
qed


lemma check_connection_default:
  assumes "(\<exists>e. subprocess_run w (ping_command w host) = Inl e \<and> check_connection_except e)
         \<or> (\<exists>output. subprocess_run w (ping_command w host) = Inr output
              \<and> (if platform_system w = ''Windows''
                 then re_search win_packet_loss_rx output = None
                      \<and> re_search win_avg_latency_rx output = None
                 else re_search unix_packet_loss_rx output = None
                      \<and> re_search unix_avg_latency_rx output = None))"
  shows "check_connection w host
         = Inr \<lparr>success = False, packet_loss = 100, avg_latency = PyInt (- 1)\<rparr>"
  using assms
  by (auto simp: check_connection_def check_connection_try_def bind_exn_simps split: if_splits)

lemma str_int_small: "str_int 1 = ''1''" "str_int 2 = ''2''" "str_int (- 1) = ''-1''"
  by code_simp+

lemma example_probes:
  "check_connection world_nominal INTERNET_HOST
     = Inr \<lparr>success = True, packet_loss = 0, avg_latency = PyFloat 12.3\<rparr>"
  "check_connection world_degraded INTERNET_HOST
     = Inr \<lparr>success = True, packet_loss = 25, avg_latency = PyInt (- 1)\<rparr>"
  "check_connection world_outage INTERNET_HOST
     = Inr \<lparr>success = False, packet_loss = 100, avg_latency = PyInt (- 1)\<rparr>"
  "check_connection world_two_hops INTERNET_HOST
     = Inr \<lparr>success = True, packet_loss = 0, avg_latency = PyFloat 12.3\<rparr>"
  "check_connection world_500 INTERNET_HOST
     = Inr \<lparr>success = True, packet_loss = 0, avg_latency = PyFloat 12.3\<rparr>"
  by code_simp+

lemma example_paths:
  "run_traceroute world_nominal INTERNET_HOST
     = Inr [\<lparr>hop = 1, hostname = ''gw'', ip = ''192.168.1.1'', latency = PyFloat 1.5,
             whois = \<lparr>org_name = ''N/A'', country = ''N/A''\<rparr>\<rparr>]"
  "run_traceroute world_degraded INTERNET_HOST
     = Inr [\<lparr>hop = 1, hostname = ''gw'', ip = ''192.168.1.1'', latency = PyFloat 1.5,
             whois = \<lparr>org_name = ''N/A'', country = ''N/A''\<rparr>\<rparr>]"
  "run_traceroute world_500 INTERNET_HOST
     = Inr [\<lparr>hop = 1, hostname = ''gw'', ip = ''192.168.1.1'', latency = PyFloat 1.5,
             whois = \<lparr>org_name = ''N/A'', country = ''N/A''\<rparr>\<rparr>]"
  "run_traceroute world_outage INTERNET_HOST = Inr [failed_hop]"
  "run_traceroute world_two_hops INTERNET_HOST
     = Inr [\<lparr>hop = 1, hostname = ''gw'', ip = ''192.168.1.1'', latency = PyFloat 1.5,
             whois = \<lparr>org_name = ''N/A'', country = ''N/A''\<rparr>\<rparr>,
            timed_out_hop 2]"
  by code_simp+

lemma example_responses:
  "check_application_response_time world_nominal APPLICATION_URL = Inr (PyFloat 250)"
  "check_application_response_time world_degraded APPLICATION_URL = Inr (PyFloat 250)"
  "check_application_response_time world_two_hops APPLICATION_URL = Inr (PyFloat 250)"
  "check_application_response_time world_outage APPLICATION_URL = Inr (PyInt (- 1))"
  "check_application_response_time world_500 APPLICATION_URL = Inr (PyInt (- 1))"
  by code_simp+

lemmas example_cycles =
  cycle_Inr[OF example_probes(1) example_paths(1) example_responses(1)]
  cycle_Inr[OF example_probes(2) example_paths(2) example_responses(2)]
  cycle_Inr[OF example_probes(3) example_paths(4) example_responses(4)]
  cycle_Inr[OF example_probes(4) example_paths(5) example_responses(3)]
  cycle_Inr[OF example_probes(5) example_paths(3) example_responses(5)]

section \<open>The claims about check_connection\<close>

text \<open>
  Claim C3, as stated: when the ping command fails to start, \<open>check_connection\<close> never
  raises an exception to its caller. It does: the \<open>except\<close> clause names
  \<open>TimeoutExpired\<close>, \<open>FileNotFoundError\<close>, \<open>IndexError\<close> and \<open>ValueError\<close>, and a
  command that cannot be started for another reason, here a \<open>PermissionError\<close>, raises
  through it.
\<close>

theorem check_connection_raises_counterexample:
  "subprocess_run world_permission_denied (ping_command world_permission_denied INTERNET_HOST)
     = Inl PermissionError
   \<and> check_connection world_permission_denied INTERNET_HOST = Inl PermissionError"
  by (simp add: check_connection_def check_connection_try_def check_connection_except_def
        bind_exn_simps world_permission_denied_def world_nominal_def)

text \<open>
  Claim C3, amended. When the ping command is not found (\<open>FileNotFoundError\<close>), when it
  times out (\<open>TimeoutExpired\<close>), or when its output matches neither the packet-loss
  pattern nor the average-latency pattern of the platform, \<open>check_connection\<close> returns
  a result, not an exception, and the result is \<open>success = False\<close>,
  \<open>packet_loss = 100\<close> and the latency sentinel \<open>-1\<close>.
\<close>

theorem check_connection_failure:
  assumes "subprocess_run w (ping_command w host) = Inl TimeoutExpired
         \<or> subprocess_run w (ping_command w host) = Inl FileNotFoundError
         \<or> (\<exists>output. subprocess_run w (ping_command w host) = Inr output
              \<and> (if platform_system w = ''Windows''
                 then re_search win_packet_loss_rx output = None
                      \<and> re_search win_avg_latency_rx output = None
                 else re_search unix_packet_loss_rx output = None
                      \<and> re_search unix_avg_latency_rx output = None))"
  shows "check_connection w host
         = Inr \<lparr>success = False, packet_loss = 100, avg_latency = PyInt (- 1)\<rparr>"
  using assms
  by (auto simp: check_connection_def check_connection_try_def check_connection_except_def
        bind_exn_simps split: if_splits)

theorem check_connection_failure_witness:
  "subprocess_run world_outage (ping_command world_outage INTERNET_HOST) = Inl TimeoutExpired
   \<and> check_connection world_outage INTERNET_HOST
     = Inr \<lparr>success = False, packet_loss = 100, avg_latency = PyInt (- 1)\<rparr>
   \<and> subprocess_run world_unknown_host (ping_command world_unknown_host INTERNET_HOST)
     = Inr ''ping: unknown host''
   \<and> re_search unix_packet_loss_rx ''ping: unknown host'' = None
   \<and> re_search unix_avg_latency_rx ''ping: unknown host'' = None
   \<and> check_connection world_unknown_host INTERNET_HOST
     = Inr \<lparr>success = False, packet_loss = 100, avg_latency = PyInt (- 1)\<rparr>"
proof -
  have t: "subprocess_run world_outage (ping_command world_outage INTERNET_HOST)
           = Inl TimeoutExpired"
    by (simp add: world_outage_def world_nominal_def)
  have u: "subprocess_run world_unknown_host (ping_command world_unknown_host INTERNET_HOST)
           = Inr ''ping: unknown host''"
    by (simp add: world_unknown_host_def world_nominal_def)
  have p: "platform_system world_unknown_host \<noteq> ''Windows''"
    by (simp add: world_unknown_host_def world_nominal_def)
  have n1: "re_search unix_packet_loss_rx ''ping: unknown host'' = None" by code_simp
  have n2: "re_search unix_avg_latency_rx ''ping: unknown host'' = None" by code_simp
  show ?thesis
    using t u n1 n2 p check_connection_failure[of world_outage INTERNET_HOST]
      check_connection_failure[of world_unknown_host INTERNET_HOST]
    by simp
qed

text \<open>
  Claim C10, as stated: for every output where the packet-loss pattern matches and the
  average-latency pattern does not, \<open>packet_loss\<close> is the parsed value. It is not when
  the matched run of digits is longer than \<open>int\<close> converts: for a loss figure of 4301
  digits \<open>int\<close> raises \<open>ValueError\<close>, the \<open>except\<close> clause catches it, and the result
  is the total failure with \<open>packet_loss = 100\<close>.
\<close>

theorem check_connection_partial_counterexample:
  "platform_system world_long_loss = ''Linux''
   \<and> subprocess_run world_long_loss (ping_command world_long_loss INTERNET_HOST)
     = Inr (replicate 4301 CHR ''9'' @ ''% packet loss'')
   \<and> re_search unix_packet_loss_rx (replicate 4301 CHR ''9'' @ ''% packet loss'')
     = Some [(1, replicate 4301 CHR ''9'')]
   \<and> re_search unix_avg_latency_rx (replicate 4301 CHR ''9'' @ ''% packet loss'') = None
   \<and> check_connection world_long_loss INTERNET_HOST
     = Inr \<lparr>success = False, packet_loss = 100, avg_latency = PyInt (- 1)\<rparr>
   \<and> int (nat_of_digits (replicate 4301 CHR ''9'')) \<noteq> 100"
proof -
  let ?ds = "replicate 4301 CHR ''9''"
  have p: "platform_system world_long_loss = ''Linux''"
    by (simp add: world_long_loss_def world_nominal_def)
  have r: "subprocess_run world_long_loss (ping_command world_long_loss INTERNET_HOST)
           = Inr (?ds @ ''% packet loss'')"
    by (simp add: world_long_loss_def world_nominal_def)
  have s: "re_search unix_packet_loss_rx (?ds @ ''% packet loss'') = Some [(1, ?ds)]"
    by (rule unix_packet_loss_search) (simp_all add: list_all_iff isdigit_def digits_def)
  have n: "re_search unix_avg_latency_rx (?ds @ ''% packet loss'') = None"
    by (rule unix_avg_latency_none) simp
  have e: "py_int ?ds = Inl ValueError"
    by (rule py_int_long) (simp add: int_max_str_digits_def)
  have c: "check_connection world_long_loss INTERNET_HOST
           = Inr \<lparr>success = False, packet_loss = 100, avg_latency = PyInt (- 1)\<rparr>"
    using p r s e
    by (simp add: check_connection_def check_connection_try_def check_connection_except_def
          bind_exn_simps match_group_def)
  have "4301 \<le> nat_of_digits ?ds" by (rule nat_of_digits_nines)
  then have v: "int (nat_of_digits ?ds) \<noteq> 100" by simp
  show ?thesis using p r s n c v by simp
qed

text \<open>
  Claim C10, amended. When the packet-loss pattern of the platform matches the output of
  the ping command and the average-latency pattern does not, the first group of the match
  is a non-empty run of digits. If the run has at most 4300 digits, \<open>check_connection\<close>
  returns a partial result: \<open>packet_loss\<close> is the number those digits denote,
  \<open>success\<close> says whether that number is below 100, and \<open>avg_latency\<close> is the sentinel
  \<open>-1\<close>. If the run is longer, the result is the total failure: \<open>success = False\<close>,
  \<open>packet_loss = 100\<close> and the sentinel \<open>-1\<close>.
\<close>

theorem check_connection_partial:
  assumes run: "subprocess_run w (ping_command w host) = Inr output"
    and loss: "(if platform_system w = ''Windows'' then re_search win_packet_loss_rx output
                else re_search unix_packet_loss_rx output) = Some m"
    and lat: "(if platform_system w = ''Windows'' then re_search win_avg_latency_rx output
               else re_search unix_avg_latency_rx output) = None"
  shows "match_group m 1 \<noteq> [] \<and> list_all isdigit (match_group m 1)
         \<and> check_connection w host
           = Inr (if length (match_group m 1) \<le> 4300
                  then \<lparr>success = int (nat_of_digits (match_group m 1)) < 100,
                        packet_loss = int (nat_of_digits (match_group m 1)),
                        avg_latency = PyInt (- 1)\<rparr>
                  else \<lparr>success = False, packet_loss = 100, avg_latency = PyInt (- 1)\<rparr>)"
proof -
  note g = packet_loss_digits[OF loss]
  show ?thesis
  proof (cases "length (match_group m 1) \<le> 4300")
    case True
    with g have i: "py_int (match_group m 1) = Inr (int (nat_of_digits (match_group m 1)))"
      by (simp add: py_int_def int_max_str_digits_def)
    have "check_connection_try w host
          = Inr \<lparr>success = int (nat_of_digits (match_group m 1)) < 100,
                 packet_loss = int (nat_of_digits (match_group m 1)),
                 avg_latency = PyInt (- 1)\<rparr>"
      using run loss lat i
      by (simp add: check_connection_try_def bind_exn_simps split: if_splits)
    then show ?thesis using g True by (simp add: check_connection_def)
  next
    case False
    then have i: "py_int (match_group m 1) = Inl ValueError"
      by (simp add: py_int_def int_max_str_digits_def)
    have "check_connection_try w host = Inl ValueError"
      using run loss lat i
      by (simp add: check_connection_try_def bind_exn_simps split: if_splits)
    then show ?thesis
      using g False by (simp add: check_connection_def check_connection_except_def)
  qed
qed

theorem check_connection_partial_witness:
  "subprocess_run world_degraded (ping_command world_degraded INTERNET_HOST)
     = Inr ''25% packet loss''
   \<and> re_search unix_packet_loss_rx ''25% packet loss'' = Some [(1, ''25'')]
   \<and> re_search unix_avg_latency_rx ''25% packet loss'' = None
   \<and> check_connection world_degraded INTERNET_HOST
     = Inr \<lparr>success = True, packet_loss = 25, avg_latency = PyInt (- 1)\<rparr>"
proof -
  have r: "subprocess_run world_degraded (ping_command world_degraded INTERNET_HOST)
           = Inr ''25% packet loss''"
    by (simp add: world_degraded_def world_nominal_def)
  have p: "platform_system world_degraded \<noteq> ''Windows''"
    by (simp add: world_degraded_def world_nominal_def)
  have s: "re_search unix_packet_loss_rx ''25% packet loss'' = Some [(1, ''25'')]"
    by code_simp
  have n: "re_search unix_avg_latency_rx ''25% packet loss'' = None" by code_simp
  have v: "int (nat_of_digits (match_group [(1, ''25'')] 1)) = 25" by code_simp
  have l: "length (match_group [(1, ''25'')] 1) \<le> 4300" by (simp add: match_group_def)
  show ?thesis
    using r s n p v l
      check_connection_partial[of world_degraded INTERNET_HOST "''25% packet loss''"
        "[(1, ''25'')]"]
    by simp
qed

text \<open>
  Claim C2, as stated: the \<open>packet_loss\<close> that \<open>check_connection\<close> returns lies between
  0 and 100 for every output of the ping command. It does not: no bound is applied to
  what is read, and the output \<open>150% packet loss\<close> gives 150.
\<close>

theorem packet_loss_range_counterexample:
  "check_connection world_150 INTERNET_HOST
     = Inr \<lparr>success = False, packet_loss = 150, avg_latency = PyInt (- 1)\<rparr>
   \<and> \<not> packet_loss \<lparr>success = False, packet_loss = 150, avg_latency = PyInt (- 1)\<rparr> \<le> 100"
proof -
  have "check_connection world_150 INTERNET_HOST
        = Inr \<lparr>success = False, packet_loss = 150, avg_latency = PyInt (- 1)\<rparr>"
    by code_simp
  then show ?thesis by simp
qed

text \<open>
  Claim C2, amended. For every output of the ping command, the \<open>packet_loss\<close> that
  \<open>check_connection\<close> returns is never negative, and it is above 100 only when the
  packet-loss pattern matches a run of digits in the output that denotes a number above
  100.
\<close>

theorem packet_loss_bound:
  assumes "check_connection w host = Inr r"
  shows "0 \<le> packet_loss r
         \<and> (packet_loss r \<le> 100
            \<or> (\<exists>output m. subprocess_run w (ping_command w host) = Inr output
                 \<and> (if platform_system w = ''Windows''
                    then re_search win_packet_loss_rx output
                    else re_search unix_packet_loss_rx output) = Some m
                 \<and> 100 < int (nat_of_digits (match_group m 1))))"
proof (cases "check_connection_try w host")
  case (Inl e)
  with assms show ?thesis by (auto simp: check_connection_def split: if_splits)
next
  case (Inr r')
  with assms have r: "r' = r" by (simp add: check_connection_def)
  from Inr obtain out where out: "subprocess_run w (ping_command w host) = Inr out"
    by (cases "subprocess_run w (ping_command w host)")
       (auto simp: check_connection_try_def bind_exn_simps)
  show ?thesis
  proof (cases "(if platform_system w = ''Windows'' then re_search win_packet_loss_rx out
                 else re_search unix_packet_loss_rx out)")
    case None
    with Inr out r have "packet_loss r = 100"
      by (auto simp: check_connection_try_def bind_exn_def split: if_splits sum.splits)
    then show ?thesis by simp
  next
    case (Some m)
    from Inr out r Some have "py_int (match_group m 1) = Inr (packet_loss r)"
      by (auto simp: check_connection_try_def bind_exn_def split: if_splits sum.splits)
    from py_int_value[OF this]
    have v: "packet_loss r = int (nat_of_digits (match_group m 1))" and "0 \<le> packet_loss r"
      by simp_all
    show ?thesis
    proof (cases "packet_loss r \<le> 100")
      case True
      with \<open>0 \<le> packet_loss r\<close> show ?thesis by simp
    next
      case False
      with v have "100 < int (nat_of_digits (match_group m 1))" by simp
      with out Some \<open>0 \<le> packet_loss r\<close> show ?thesis by blast
    qed
  qed
qed

theorem packet_loss_bound_witness:
  "check_connection world_nominal INTERNET_HOST
     = Inr \<lparr>success = True, packet_loss = 0, avg_latency = PyFloat 12.3\<rparr>
   \<and> 0 \<le> packet_loss \<lparr>success = True, packet_loss = 0, avg_latency = PyFloat 12.3\<rparr>
   \<and> packet_loss \<lparr>success = True, packet_loss = 0, avg_latency = PyFloat 12.3\<rparr> \<le> 100"
proof -
  have e: "check_connection world_nominal INTERNET_HOST
           = Inr \<lparr>success = True, packet_loss = 0, avg_latency = PyFloat 12.3\<rparr>"
    by code_simp
  show ?thesis using e packet_loss_bound[OF e] by simp
qed

section \<open>The claim about get_whois_info\<close>

text \<open>
  Claim C5. For every address of 10.0.0.0/8, 172.16.0.0/12 and 192.168.0.0/16, written in
  dotted decimal, \<open>get_whois_info\<close> starts no external command and returns the default
  record, with \<open>org_name\<close> and \<open>country\<close> both \<open>N/A\<close>.
\<close>

theorem get_whois_info_private:
  assumes "a = 10 \<or> (a = 172 \<and> 16 \<le> b \<and> b \<le> 31) \<or> (a = 192 \<and> b = 168)"
  shows "get_whois_info w (dotted_quad a b c d)
         = ([], Inr \<lparr>org_name = ''N/A'', country = ''N/A''\<rparr>)"
proof -
  have "startswith (dotted_quad a b c d) private_prefixes"
    using assms startswith_10[of "str_nat b @ ''.'' @ str_nat c @ ''.'' @ str_nat d"]
      startswith_172[of b "str_nat c @ ''.'' @ str_nat d"]
      startswith_192_168[of "str_nat c @ ''.'' @ str_nat d"]
    by (auto simp: dotted_quad_def str_nat_octets)
  then show ?thesis by (simp add: get_whois_info_def default_whois_info_def)
qed

theorem get_whois_info_private_witness:
  "dotted_quad 172 20 0 1 = ''172.20.0.1''
   \<and> get_whois_info world_nominal ''172.20.0.1''
     = ([], Inr \<lparr>org_name = ''N/A'', country = ''N/A''\<rparr>)"
proof -
  have q: "dotted_quad 172 20 0 1 = ''172.20.0.1''" by code_simp
  show ?thesis using q get_whois_info_private[of 172 20 world_nominal 0 1] by simp
qed

section \<open>The claim about run_traceroute\<close>

text \<open>
  Claim C1, as stated: \<open>run_traceroute\<close> returns a sequence with at least one record at
  every call. It does not: when the command runs and none of its lines is a hop line, the
  sequence is empty. Here the command prints its header line only.
\<close>

theorem run_traceroute_nonempty_counterexample:
  "run_traceroute world_header_only INTERNET_HOST = Inr []"
  by code_simp

text \<open>
  Claim C1, amended. When the traceroute command is not found, times out or exits with an
  error, \<open>run_traceroute\<close> returns exactly one record, with hop index \<open>-1\<close> and
  \<open>Traceroute Failed\<close> as host name and address. When the command runs on a platform
  other than Windows, the sequence returned has a record exactly when some non-empty line
  of the output matches the hop pattern or the timed-out pattern; it is empty otherwise.
\<close>

theorem run_traceroute_result:
  "(subprocess_check_output w (traceroute_command w host) = Inl e \<and> run_traceroute_except e
      \<longrightarrow> run_traceroute w host
          = Inr [\<lparr>hop = - 1, hostname = ''Traceroute Failed'', ip = ''Traceroute Failed'',
                  latency = PyInt (- 1),
                  whois = \<lparr>org_name = ''N/A'', country = ''N/A''\<rparr>\<rparr>])
   \<and> (platform_system w \<noteq> ''Windows''
      \<and> subprocess_check_output w (traceroute_command w host) = Inr full_traceroute_output
      \<and> run_traceroute w host = Inr traceroute_results
      \<longrightarrow> (traceroute_results \<noteq> [] \<longleftrightarrow>
           (\<exists>line \<in> set (splitlines full_traceroute_output).
              line \<noteq> [] \<and> (re_search unix_hop_rx line \<noteq> None
                            \<or> re_search unix_timeout_rx line \<noteq> None))))"
proof (intro conjI impI)
  assume "subprocess_check_output w (traceroute_command w host) = Inl e \<and> run_traceroute_except e"
  then show "run_traceroute w host
          = Inr [\<lparr>hop = - 1, hostname = ''Traceroute Failed'', ip = ''Traceroute Failed'',
                  latency = PyInt (- 1),
                  whois = \<lparr>org_name = ''N/A'', country = ''N/A''\<rparr>\<rparr>]"
    by (simp add: run_traceroute_def failed_hop_def)
next
  assume a: "platform_system w \<noteq> ''Windows''
      \<and> subprocess_check_output w (traceroute_command w host) = Inr full_traceroute_output
      \<and> run_traceroute w host = Inr traceroute_results"
  then have unix: "platform_system w \<noteq> ''Windows''"
    and out: "subprocess_check_output w (traceroute_command w host) = Inr full_traceroute_output"
    and ret: "run_traceroute w host = Inr traceroute_results"
    by simp_all
  obtain res eo where loop: "traceroute_lines w (splitlines full_traceroute_output) [] = (res, eo)"
    by (cases "traceroute_lines w (splitlines full_traceroute_output) []") blast
  show "traceroute_results \<noteq> [] \<longleftrightarrow>
           (\<exists>line \<in> set (splitlines full_traceroute_output).
              line \<noteq> [] \<and> (re_search unix_hop_rx line \<noteq> None
                            \<or> re_search unix_timeout_rx line \<noteq> None))"
  proof (cases eo)
    case None
    with out ret loop have "traceroute_results = res" by (simp add: run_traceroute_def)
    moreover from traceroute_lines_None[of w _ "[]" res] loop None
    have "res = [] \<longleftrightarrow> (\<forall>l \<in> set (splitlines full_traceroute_output). traceroute_line w l = Inr [])"
      by simp
    ultimately show ?thesis using unix_line_skipped[OF unix] by auto
  next
    case (Some e)
    with out ret loop have "traceroute_results = res @ [failed_hop]"
      by (auto simp: run_traceroute_def split: if_splits)
    moreover from traceroute_lines_Some[of w _ "[]" res e] loop Some
    obtain l where "l \<in> set (splitlines full_traceroute_output)" "traceroute_line w l = Inl e"
      by auto
    moreover from this have "l \<noteq> [] \<and> (re_search unix_hop_rx l \<noteq> None
                            \<or> re_search unix_timeout_rx l \<noteq> None)"
      using unix_line_skipped[OF unix, of l] by auto
    ultimately show ?thesis by blast
  qed
qed

theorem run_traceroute_result_witness:
  "subprocess_check_output world_outage (traceroute_command world_outage INTERNET_HOST)
     = Inl TimeoutExpired
   \<and> run_traceroute world_outage INTERNET_HOST
     = Inr [\<lparr>hop = - 1, hostname = ''Traceroute Failed'', ip = ''Traceroute Failed'',
             latency = PyInt (- 1), whois = \<lparr>org_name = ''N/A'', country = ''N/A''\<rparr>\<rparr>]
   \<and> subprocess_check_output world_two_hops (traceroute_command world_two_hops INTERNET_HOST)
     = Inr ('' 1  gw (192.168.1.1)  1.5 ms'' @ NL @ '' 2  * * *'')
   \<and> run_traceroute world_two_hops INTERNET_HOST
     = Inr [\<lparr>hop = 1, hostname = ''gw'', ip = ''192.168.1.1'', latency = PyFloat 1.5,
             whois = \<lparr>org_name = ''N/A'', country = ''N/A''\<rparr>\<rparr>,
            \<lparr>hop = 2, hostname = ''Timed Out'', ip = ''Timed Out'', latency = PyInt (- 1),
             whois = \<lparr>org_name = ''N/A'', country = ''N/A''\<rparr>\<rparr>]
   \<and> '' 2  * * *'' \<in> set (splitlines ('' 1  gw (192.168.1.1)  1.5 ms'' @ NL @ '' 2  * * *''))
   \<and> re_search unix_timeout_rx '' 2  * * *'' \<noteq> None"
proof -
  have o: "subprocess_check_output world_outage (traceroute_command world_outage INTERNET_HOST)
           = Inl TimeoutExpired"
    by (simp add: world_outage_def world_nominal_def)
  have t: "subprocess_check_output world_two_hops (traceroute_command world_two_hops INTERNET_HOST)
           = Inr ('' 1  gw (192.168.1.1)  1.5 ms'' @ NL @ '' 2  * * *'')"
    by (simp add: world_two_hops_def world_nominal_def)
  have p: "platform_system world_two_hops \<noteq> ''Windows''"
    by (simp add: world_two_hops_def world_nominal_def)
  have r: "run_traceroute world_two_hops INTERNET_HOST
     = Inr [\<lparr>hop = 1, hostname = ''gw'', ip = ''192.168.1.1'', latency = PyFloat 1.5,
             whois = \<lparr>org_name = ''N/A'', country = ''N/A''\<rparr>\<rparr>,
            \<lparr>hop = 2, hostname = ''Timed Out'', ip = ''Timed Out'', latency = PyInt (- 1),
             whois = \<lparr>org_name = ''N/A'', country = ''N/A''\<rparr>\<rparr>]"
    by code_simp
  have l: "'' 2  * * *'' \<in> set (splitlines ('' 1  gw (192.168.1.1)  1.5 ms'' @ NL @ '' 2  * * *''))"
    by code_simp
  have s: "re_search unix_timeout_rx '' 2  * * *'' \<noteq> None" by code_simp
  show ?thesis
    using o t p r l s
      run_traceroute_result[of world_outage INTERNET_HOST TimeoutExpired]
      run_traceroute_result[of world_two_hops INTERNET_HOST]
    by (simp add: run_traceroute_except_def)
qed

section \<open>The claims about one cycle of main\<close>

text \<open>
  Claim C4. In every result of \<open>check_connection\<close>, \<open>success\<close> holds exactly when
  \<open>packet_loss\<close> is below 100. In a cycle of \<open>main\<close> the report is green and no alert
  sound is played when the loss is 0 (nominal); it is yellow and the yellow alert is handed
  to the player when the loss lies strictly between 0 and 100 (degraded); it is red and
  the red alert is handed to the player when the loss is 100 (outage).
\<close>

theorem success_and_severity:
  assumes "check_connection w host = Inr r"
  shows "(success r \<longleftrightarrow> packet_loss r < 100)
       \<and> (host = INTERNET_HOST \<and> cycle w m = Inr m' \<longrightarrow>
            (packet_loss r = 0 \<longrightarrow>
               sounds m' = sounds m
               \<and> (\<exists>report. console m' = console m @ [GREEN @ report @ RESET]))
          \<and> (0 < packet_loss r \<and> packet_loss r < 100 \<longrightarrow>
               sounds m' = sounds m @ [YELLOW_SOUND_PATH]
               \<and> (\<exists>report. console m' = console m @ [YELLOW @ report @ RESET]))
          \<and> (packet_loss r = 100 \<longrightarrow>
               sounds m' = sounds m @ [RED_SOUND_PATH]
               \<and> (\<exists>report. console m' = console m @ [RED @ report @ RESET])))"
proof (intro conjI impI)
  show "success r \<longleftrightarrow> packet_loss r < 100"
    using assms by (rule check_connection_success)
next
  assume h: "host = INTERNET_HOST \<and> cycle w m = Inr m'"
  then obtain r' hops art where "check_connection w INTERNET_HOST = Inr r'"
    and m': "m' = publish_and_report w r' hops art (get_network_interface_stats w m)"
    using cycle_InrD[of w m m'] by blast
  with assms h have r': "r' = r" by simp
  have s: "sounds m' = sounds m @ snd (determine_color (packet_loss r))"
    and c: "console m' = console m
              @ [fst (determine_color (packet_loss r)) @ console_output w r hops art @ RESET]"
    unfolding m' r' by (simp_all add: publish_and_report_outputs get_network_interface_stats_frame)
  {
    assume "packet_loss r = 0"
    then show "sounds m' = sounds m"
      and "\<exists>report. console m' = console m @ [GREEN @ report @ RESET]"
      using s c by (simp_all add: determine_color_def)
  }
  {
    assume "0 < packet_loss r \<and> packet_loss r < 100"
    then show "sounds m' = sounds m @ [YELLOW_SOUND_PATH]"
      and "\<exists>report. console m' = console m @ [YELLOW @ report @ RESET]"
      using s c by (simp_all add: determine_color_def SOUND_ENABLED_def)
  }
  {
    assume "packet_loss r = 100"
    then show "sounds m' = sounds m @ [RED_SOUND_PATH]"
      and "\<exists>report. console m' = console m @ [RED @ report @ RESET]"
      using s c by (simp_all add: determine_color_def SOUND_ENABLED_def)
  }
qed

theorem success_and_severity_witness:
  "check_connection world_nominal INTERNET_HOST
     = Inr \<lparr>success = True, packet_loss = 0, avg_latency = PyFloat 12.3\<rparr>
   \<and> map_sum id sounds (cycle world_nominal monitor0) = Inr []
   \<and> check_connection world_degraded INTERNET_HOST
     = Inr \<lparr>success = True, packet_loss = 25, avg_latency = PyInt (- 1)\<rparr>
   \<and> map_sum id sounds (cycle world_degraded monitor0) = Inr [YELLOW_SOUND_PATH]
   \<and> check_connection world_outage INTERNET_HOST
     = Inr \<lparr>success = False, packet_loss = 100, avg_latency = PyInt (- 1)\<rparr>
   \<and> map_sum id sounds (cycle world_outage monitor0) = Inr [RED_SOUND_PATH]"
proof -
  have s0: "sounds monitor0 = []" by (simp add: monitor0_def)
  have "map_sum id sounds (cycle world_nominal monitor0) = Inr []"
    using success_and_severity[OF example_probes(1), of monitor0] example_cycles(1)[of monitor0] s0
    by simp
  moreover have "map_sum id sounds (cycle world_degraded monitor0) = Inr [YELLOW_SOUND_PATH]"
    using success_and_severity[OF example_probes(2), of monitor0] example_cycles(2)[of monitor0] s0
    by simp
  moreover have "map_sum id sounds (cycle world_outage monitor0) = Inr [RED_SOUND_PATH]"
    using success_and_severity[OF example_probes(3), of monitor0] example_cycles(3)[of monitor0] s0
    by simp
  ultimately show ?thesis using example_probes by simp
qed

text \<open>
  Claim C6. After the gauges are updated in a cycle, the per-hop latency gauge has a
  labelled series for exactly the hop records of this cycle whose latency is not the
  sentinel \<open>-1\<close>, whatever series it had before; the value of a series is the latency
  of a record of this cycle with these labels; and the hop-count gauge is the number of
  all hop records of this cycle, those with unknown latency included.
\<close>

theorem hop_series_replaced:
  assumes "cycle w m = Inr m'"
    and "run_traceroute w INTERNET_HOST = Inr traceroute_results"
  shows "dom (TRACEROUTE_HOP_LATENCY m')
         = (\<lambda>h. (str_int (hop h), ip h, hostname h))
             ` {h \<in> set traceroute_results. val (latency h) \<noteq> - 1}
       \<and> (\<forall>k v. TRACEROUTE_HOP_LATENCY m' k = Some v \<longrightarrow>
            (\<exists>h \<in> set traceroute_results. k = (str_int (hop h), ip h, hostname h)
               \<and> val (latency h) \<noteq> - 1 \<and> v = val (latency h)))
       \<and> TRACEROUTE_HOPS_GAUGE m' = real (length traceroute_results)"
proof -
  from cycle_InrD[OF assms(1)] assms(2) obtain r art
    where m': "m' = publish_and_report w r traceroute_results art (get_network_interface_stats w m)"
    by auto
  have "\<exists>h \<in> set traceroute_results. k = (str_int (hop h), ip h, hostname h)
               \<and> val (latency h) \<noteq> - 1 \<and> v = val (latency h)"
    if "TRACEROUTE_HOP_LATENCY m' k = Some v" for k v
    using that set_hop_latencies_Some[of traceroute_results Map.empty k v]
    unfolding m' by (simp add: publish_and_report_gauges)
  then show ?thesis unfolding m' by (simp add: publish_and_report_gauges dom_set_hop_latencies)
qed

theorem hop_series_replaced_witness:
  "run_traceroute world_two_hops INTERNET_HOST
     = Inr [\<lparr>hop = 1, hostname = ''gw'', ip = ''192.168.1.1'', latency = PyFloat 1.5,
             whois = \<lparr>org_name = ''N/A'', country = ''N/A''\<rparr>\<rparr>,
            timed_out_hop 2]
   \<and> dom (TRACEROUTE_HOP_LATENCY monitor_earlier) = {(''3'', ''8.8.8.8'', ''dns.google'')}
   \<and> map_sum id (\<lambda>m. dom (TRACEROUTE_HOP_LATENCY m)) (cycle world_two_hops monitor_earlier)
     = Inr {(''1'', ''192.168.1.1'', ''gw'')}
   \<and> map_sum id TRACEROUTE_HOPS_GAUGE (cycle world_two_hops monitor_earlier) = Inr 2"
proof -
  have k: "{h \<in> set [\<lparr>hop = 1, hostname = ''gw'', ip = ''192.168.1.1'', latency = PyFloat 1.5,
             whois = \<lparr>org_name = ''N/A'', country = ''N/A''\<rparr>\<rparr>,
            timed_out_hop 2]. val (latency h) \<noteq> - 1}
        = {\<lparr>hop = 1, hostname = ''gw'', ip = ''192.168.1.1'', latency = PyFloat 1.5,
             whois = \<lparr>org_name = ''N/A'', country = ''N/A''\<rparr>\<rparr>}"
    by (auto simp: timed_out_hop_def)
  have d: "dom (TRACEROUTE_HOP_LATENCY monitor_earlier) = {(''3'', ''8.8.8.8'', ''dns.google'')}"
    by (simp add: monitor_earlier_def monitor0_def)
  note t = hop_series_replaced[OF example_cycles(4)[of monitor_earlier] example_paths(5)]
  show ?thesis
    using t[THEN conjunct1] t[THEN conjunct2, THEN conjunct2]
      example_cycles(4)[of monitor_earlier] example_paths(5) k d
    by (simp add: str_int_small)
qed

text \<open>
  Claim C7. The report of a cycle is appended to the log file exactly when the packet loss
  is above 0 or some hop record of the cycle has the latency sentinel \<open>-1\<close>; in a cycle
  with no loss and every latency known, the log file is left as it was.
\<close>

theorem log_written_iff:
  assumes "cycle w m = Inr m'"
    and "check_connection w INTERNET_HOST = Inr r"
    and "run_traceroute w INTERNET_HOST = Inr hops"
    and "check_application_response_time w APPLICATION_URL = Inr art"
  shows "(if packet_loss r > 0 \<or> (\<exists>h \<in> set hops. val (latency h) = - 1)
          then LOG_FILE m' = LOG_FILE m @ console_output w r hops art @ NL
          else LOG_FILE m' = LOG_FILE m)
       \<and> (LOG_FILE m' \<noteq> LOG_FILE m
            \<longleftrightarrow> packet_loss r > 0 \<or> (\<exists>h \<in> set hops. val (latency h) = - 1))"
proof -
  from cycle_InrD[OF assms(1)] assms(2-4)
  have "m' = publish_and_report w r hops art (get_network_interface_stats w m)"
    by auto
  then show ?thesis
    by (simp add: publish_and_report_outputs get_network_interface_stats_frame
          log_condition_def list_ex_iff NL_def)
qed

theorem log_written_iff_witness:
  "map_sum id LOG_FILE (cycle world_nominal monitor0) = Inr []
   \<and> map_sum id LOG_FILE (cycle world_degraded monitor0)
     = Inr (console_output world_degraded
              \<lparr>success = True, packet_loss = 25, avg_latency = PyInt (- 1)\<rparr>
              [\<lparr>hop = 1, hostname = ''gw'', ip = ''192.168.1.1'', latency = PyFloat 1.5,
                whois = \<lparr>org_name = ''N/A'', country = ''N/A''\<rparr>\<rparr>]
              (PyFloat 250) @ NL)
   \<and> map_sum id LOG_FILE (cycle world_two_hops monitor0)
     = Inr (console_output world_two_hops
              \<lparr>success = True, packet_loss = 0, avg_latency = PyFloat 12.3\<rparr>
              [\<lparr>hop = 1, hostname = ''gw'', ip = ''192.168.1.1'', latency = PyFloat 1.5,
                whois = \<lparr>org_name = ''N/A'', country = ''N/A''\<rparr>\<rparr>,
               timed_out_hop 2]
              (PyFloat 250) @ NL)"
proof -
  have l0: "LOG_FILE monitor0 = []" by (simp add: monitor0_def)
  have "map_sum id LOG_FILE (cycle world_nominal monitor0) = Inr []"
    using log_written_iff[OF example_cycles(1)[of monitor0] example_probes(1) example_paths(1)
        example_responses(1)] example_cycles(1)[of monitor0] l0
    by simp
  moreover have "map_sum id LOG_FILE (cycle world_degraded monitor0)
     = Inr (console_output world_degraded
              \<lparr>success = True, packet_loss = 25, avg_latency = PyInt (- 1)\<rparr>
              [\<lparr>hop = 1, hostname = ''gw'', ip = ''192.168.1.1'', latency = PyFloat 1.5,
                whois = \<lparr>org_name = ''N/A'', country = ''N/A''\<rparr>\<rparr>]
              (PyFloat 250) @ NL)"
    using log_written_iff[OF example_cycles(2)[of monitor0] example_probes(2) example_paths(2)
        example_responses(2)] example_cycles(2)[of monitor0] l0
    by simp
  moreover have "map_sum id LOG_FILE (cycle world_two_hops monitor0)
     = Inr (console_output world_two_hops
              \<lparr>success = True, packet_loss = 0, avg_latency = PyFloat 12.3\<rparr>
              [\<lparr>hop = 1, hostname = ''gw'', ip = ''192.168.1.1'', latency = PyFloat 1.5,
                whois = \<lparr>org_name = ''N/A'', country = ''N/A''\<rparr>\<rparr>,
               timed_out_hop 2]
              (PyFloat 250) @ NL)"
    using log_written_iff[OF example_cycles(4)[of monitor0] example_probes(4) example_paths(5)
        example_responses(3)] example_cycles(4)[of monitor0] l0
    by (simp add: timed_out_hop_def)
  ultimately show ?thesis by simp
qed



text \<open>
  Claim C9. The ping latency gauge is set in every cycle to the \<open>avg_latency\<close> that
  \<open>check_connection\<close> returned, with no condition. So in a cycle where the ping probe
  fails (the command is not found or times out, or its output matches neither pattern)
  the gauge is published with the sentinel \<open>-1\<close>, whatever its value was before.
\<close>

theorem ping_gauge_always_set:
  assumes "cycle w m = Inr m'"
  shows "(\<exists>r. check_connection w INTERNET_HOST = Inr r
              \<and> PING_LATENCY_GAUGE m' = val (avg_latency r))
       \<and> (subprocess_run w (ping_command w INTERNET_HOST) = Inl TimeoutExpired
          \<or> subprocess_run w (ping_command w INTERNET_HOST) = Inl FileNotFoundError
          \<or> (\<exists>output. subprocess_run w (ping_command w INTERNET_HOST) = Inr output
               \<and> (if platform_system w = ''Windows''
                  then re_search win_packet_loss_rx output = None
                       \<and> re_search win_avg_latency_rx output = None
                  else re_search unix_packet_loss_rx output = None
                       \<and> re_search unix_avg_latency_rx output = None))
          \<longrightarrow> PING_LATENCY_GAUGE m' = - 1)"
proof -
  from cycle_InrD[OF assms] obtain r hops art
    where r: "check_connection w INTERNET_HOST = Inr r"
      and m': "m' = publish_and_report w r hops art (get_network_interface_stats w m)"
    by blast
  have g: "PING_LATENCY_GAUGE m' = val (avg_latency r)"
    unfolding m' by (simp add: publish_and_report_gauges)
  have "PING_LATENCY_GAUGE m' = - 1"
    if "subprocess_run w (ping_command w INTERNET_HOST) = Inl TimeoutExpired
          \<or> subprocess_run w (ping_command w INTERNET_HOST) = Inl FileNotFoundError
          \<or> (\<exists>output. subprocess_run w (ping_command w INTERNET_HOST) = Inr output
               \<and> (if platform_system w = ''Windows''
                  then re_search win_packet_loss_rx output = None
                       \<and> re_search win_avg_latency_rx output = None
                  else re_search unix_packet_loss_rx output = None
                       \<and> re_search unix_avg_latency_rx output = None))"
  proof -
    from that have "check_connection w INTERNET_HOST
         = Inr \<lparr>success = False, packet_loss = 100, avg_latency = PyInt (- 1)\<rparr>"
      by (intro check_connection_default) (auto simp: check_connection_except_def)
    with r have "r = \<lparr>success = False, packet_loss = 100, avg_latency = PyInt (- 1)\<rparr>"
      by simp
    then have "val (avg_latency r) = - 1" by simp
    with g show ?thesis by simp
  qed
  with r g show ?thesis by blast
qed

theorem ping_gauge_always_set_witness:
  "subprocess_run world_outage (ping_command world_outage INTERNET_HOST) = Inl TimeoutExpired
   \<and> PING_LATENCY_GAUGE monitor_earlier = 12.3
   \<and> map_sum id PING_LATENCY_GAUGE (cycle world_outage monitor_earlier) = Inr (- 1)"
proof -
  have t: "subprocess_run world_outage (ping_command world_outage INTERNET_HOST)
           = Inl TimeoutExpired"
    by (simp add: world_outage_def world_nominal_def)
  have e: "PING_LATENCY_GAUGE monitor_earlier = 12.3"
    by (simp add: monitor_earlier_def monitor0_def)
  show ?thesis
    using t e ping_gauge_always_set[OF example_cycles(3)[of monitor_earlier]]
      example_cycles(3)[of monitor_earlier]
    by simp
qed

end
